theory Spec2Isabelle
  imports Complex_Main
begin

section \<open>Data model\<close>

text \<open>
  The element type \<open>dtype\<close> of the templates (instantiated at \<open>double\<close> and
  \<open>std::complex<double>\<close> in the source) is idealised as the field of real numbers.
\<close>

type_synonym dtype = real

text \<open>
  Modelled from the spec: the enumeration of symmetry tags lives in a header that is
  not part of the sources. The source uses \<open>NS\<close> (no symmetry) and \<open>SY\<close> (symmetric);
  the spec lists NONE, SYMMETRIC, ANTISYMMETRIC and SYMMETRIC-HOLLOW.
\<close>

datatype sym_tag = NS | SY | AS | SH

text \<open>
  \<open>CTF_Tensor\<close>: rank, edge lengths, symmetry tags, and the dense data addressed by the
  global (column major) index of the header's documentation. The world, name and
  semiring members play no role in the functions modelled here.
\<close>

record tCTF_Tensor =
  ndim :: nat
  len :: "int list"
  sym :: "sym_tag list"
  data :: "dtype list"

type_synonym addr = nat

text \<open>
  \<open>tCTF_Idx_Tensor\<close>: a tensor pointer (\<open>None\<close> is \<open>NULL\<close>), the index labels, the
  intermediate flag, and the \<open>scale\<close> member inherited from \<open>tCTF_Term\<close>.
\<close>

record tCTF_Idx_Tensor =
  scale :: dtype
  parent :: "addr option"
  idx_map :: string
  is_intm :: int

text \<open>A log entry for each call of a tensor primitive: receiver first, then the arguments.\<close>

datatype prim_call = Sum_call addr dtype addr string dtype string

text \<open>
  The store: tensors live at addresses (positions of \<open>heap\<close>); \<open>new\<close> appends.
  \<open>calls\<close> records the primitive calls made so far.
\<close>

record machine =
  heap :: "tCTF_Tensor list"
  calls :: "prim_call list"

text \<open>
  The source has no error channel: dereferencing an invalid pointer and reading past a
  buffer are undefined behaviour, which the model makes explicit as error values.
  \<open>Shape_Mismatch\<close> and \<open>Index_Out_Of_Bounds\<close> are the conditions named by the
  specification.
\<close>

datatype error = Invalid_Pointer | Buffer_Overread | Shape_Mismatch | Index_Out_Of_Bounds

definition deref :: "machine \<Rightarrow> addr option \<Rightarrow> tCTF_Tensor option" where
  "deref st p = (case p of None \<Rightarrow> None
                 | Some a \<Rightarrow> if a < length (heap st) then Some (heap st ! a) else None)"

section \<open>The tensor primitive \<open>sum\<close>\<close>

text \<open>
  The numeric kernel behind \<open>CTF_Tensor::sum\<close> is not part of the sources. It enters as
  a parameter: \<open>K A idx_A (shape of B) idx_B g\<close> is the entry that operand \<open>A\<close>, labelled
  \<open>idx_A\<close>, contributes at global index \<open>g\<close> of a destination of the given shape
  labelled \<open>idx_B\<close>.
\<close>

type_synonym sum_kernel =
  "tCTF_Tensor \<Rightarrow> string \<Rightarrow> nat \<times> int list \<times> sym_tag list \<Rightarrow> string \<Rightarrow> nat \<Rightarrow> dtype"

definition shape_of :: "tCTF_Tensor \<Rightarrow> nat \<times> int list \<times> sym_tag list" where
  "shape_of T = (ndim T, len T, sym T)"

text \<open>
  Modelled from the spec: the body of \<open>CTF_Tensor::sum\<close> is missing; its declaration
  documents \<open>B[idx_B] = beta*B[idx_B] + alpha*A[idx_A]\<close> with \<open>B\<close> the receiver, which
  is mutated in place. Both tensors are passed by reference, so they must be live.
\<close>

definition summed :: "sum_kernel \<Rightarrow> dtype \<Rightarrow> tCTF_Tensor \<Rightarrow> string \<Rightarrow> dtype \<Rightarrow> string
    \<Rightarrow> tCTF_Tensor \<Rightarrow> dtype list" where
  "summed K alpha A idx_A beta idx_B B =
     map (\<lambda>g. beta * data B ! g + alpha * K A idx_A (shape_of B) idx_B g)
         [0..<length (data B)]"

text \<open>
  Modelled from the spec: \<open>CTF_Tensor::sum\<close> as a call, see \<open>summed\<close>. The receiver at
  address \<open>this\<close> gets the new data, every other tensor stays, and the call is logged.
\<close>

definition Tensor_sum :: "sum_kernel \<Rightarrow> addr \<Rightarrow> dtype \<Rightarrow> addr \<Rightarrow> string \<Rightarrow> dtype \<Rightarrow> string
    \<Rightarrow> machine \<Rightarrow> error + machine" where
  "Tensor_sum K this alpha A idx_A beta idx_B st =
     (if this < length (heap st) \<and> A < length (heap st) then
        let B = heap st ! this;
            B' = B\<lparr>data := summed K alpha (heap st ! A) idx_A beta idx_B B\<rparr>
        in Inr (st\<lparr>heap := (heap st)[this := B'],
                   calls := calls st @ [Sum_call this alpha A idx_A beta idx_B]\<rparr>)
      else Inl Invalid_Pointer)"

section \<open>Executing an indexed tensor\<close>

text \<open>
  \<open>tCTF_Idx_Tensor::execute(output)\<close>: \<open>output\<close> is passed by value, and the only
  statement is the call of \<open>sum\<close> on the tensor \<open>output.parent\<close> points to.
\<close>

definition idx_execute :: "sum_kernel \<Rightarrow> tCTF_Idx_Tensor \<Rightarrow> tCTF_Idx_Tensor \<Rightarrow> machine
    \<Rightarrow> error + machine" where
  "idx_execute K this output st =
     (case parent output of
        None \<Rightarrow> Inl Invalid_Pointer
      | Some b \<Rightarrow>
          (case parent this of
             None \<Rightarrow> Inl Invalid_Pointer
           | Some a \<Rightarrow> Tensor_sum K b (scale this) a (idx_map this)
                         (scale output) (idx_map output) st))"

section \<open>Constructing an indexed tensor\<close>

text \<open>
  The constructor receives the label string as a \<open>const char *\<close>; the model receives
  the buffer it points to. For a string literal that is its characters followed by the
  terminating NUL.
\<close>

definition c_str :: "string \<Rightarrow> char list" where
  "c_str s = s @ [CHR 0x00]"

text \<open>\<open>memcpy(dst, src, n)\<close> reads \<open>n\<close> bytes of the source buffer.\<close>

definition memcpy :: "char list \<Rightarrow> nat \<Rightarrow> error + char list" where
  "memcpy src n = (if n \<le> length src then Inr (take n src) else Inl Buffer_Overread)"

text \<open>
  Modelled from the spec: the copy constructor \<open>CTF_Tensor(A, copy)\<close> is only declared;
  its documentation reads "copies a tensor (setting data to zero or copying A)".
\<close>

definition Tensor_copy :: "tCTF_Tensor \<Rightarrow> bool \<Rightarrow> tCTF_Tensor" where
  "Tensor_copy A copy = (if copy then A else A\<lparr>data := map (\<lambda>x. 0) (data A)\<rparr>)"

text \<open>\<open>new\<close>: the tensor is placed at a fresh address.\<close>

definition new_Tensor :: "tCTF_Tensor \<Rightarrow> machine \<Rightarrow> addr \<times> machine" where
  "new_Tensor T st = (length (heap st), st\<lparr>heap := heap st @ [T]\<rparr>)"

text \<open>
  \<open>tCTF_Idx_Tensor(parent_, idx_map_, copy)\<close>; the arguments \<open>parent_\<close> and
  \<open>idx_map_\<close> are \<open>parent_in\<close> and \<open>idx_map_in\<close> here. In the \<open>copy\<close> branch the source
  dereferences the member \<open>parent\<close>, which has not been assigned yet, where the argument
  would be expected. The indeterminate value of that member is the first
  argument \<open>uninit\<close> of the model. No branch compares the length of the label string
  with the rank.
\<close>

definition Idx_Tensor_ctor :: "addr option \<Rightarrow> addr option \<Rightarrow> char list \<Rightarrow> int \<Rightarrow> machine
    \<Rightarrow> error + tCTF_Idx_Tensor \<times> machine" where
  "Idx_Tensor_ctor uninit parent_in idx_map_in copy st =
     (if copy \<noteq> 0 then
        (case deref st uninit of
           None \<Rightarrow> Inl Invalid_Pointer
         | Some P \<Rightarrow>
             (case new_Tensor (Tensor_copy P True) st of
                (p, st1) \<Rightarrow>
                  (case memcpy idx_map_in (ndim (heap st1 ! p)) of
                     Inl e \<Rightarrow> Inl e
                   | Inr m \<Rightarrow>
                       Inr (\<lparr>scale = 1, parent = Some p, idx_map = m, is_intm = 0\<rparr>, st1))))
      else
        (case deref st parent_in of
           None \<Rightarrow> Inl Invalid_Pointer
         | Some P \<Rightarrow>
             (case memcpy idx_map_in (ndim P) of
                Inl e \<Rightarrow> Inl e
              | Inr m \<Rightarrow>
                  Inr (\<lparr>scale = 1, parent = parent_in, idx_map = m, is_intm = 0\<rparr>, st))))"

section \<open>Terms and the assignment operators\<close>

text \<open>
  Modelled from the spec: the class \<open>tCTF_Term\<close> and its subclasses are declared in a
  header that is not part of the sources. The spec describes a term as a tagged union
  of a leaf (one indexed tensor), a sum of child terms and a contraction of two child
  terms, each with a top-level scale; for a leaf that is the \<open>scale\<close> member of the
  indexed tensor. These are the terms a caller builds.
\<close>

datatype tCTF_Term =
    Leaf tCTF_Idx_Tensor
  | Sum_Term dtype "tCTF_Term list"
  | Contract_Term dtype tCTF_Term tCTF_Term

text \<open>Modelled from the spec: the member \<open>scale\<close> of a term.\<close>

fun term_scale :: "tCTF_Term \<Rightarrow> dtype" where
  "term_scale (Leaf v) = scale v"
| "term_scale (Sum_Term s ts) = s"
| "term_scale (Contract_Term s l r) = s"

text \<open>
  Modelled from the spec: the base class \<open>tCTF_Term\<close> is declared in a header that is
  not part of the sources. The spec gives every term a top-level scale, and the source
  reaches it in the base class (\<open>B.scale\<close>, and \<open>this->scale\<close> in the indexed tensor);
  \<open>parent\<close>, \<open>idx_map\<close> and \<open>is_intm\<close> are members of the indexed tensor itself.
\<close>

record tCTF_Term_base =
  base_scale :: dtype

text \<open>
  The operators declare their parameter as \<open>tCTF_Term<dtype> B\<close>, by value: what they
  receive is a copy of the base part of the caller's term, without the members of the
  class the term was built as.
\<close>

definition slice :: "tCTF_Term \<Rightarrow> tCTF_Term_base" where
  "slice t = \<lparr>base_scale = term_scale t\<rparr>"

text \<open>
  \<open>B.execute(*this)\<close> on that copy is the \<open>execute\<close> of the class \<open>tCTF_Term\<close>, never
  that of \<open>tCTF_Idx_Tensor\<close>. It is not part of the sources and enters as the parameter
  \<open>X\<close>: a function of the copy, of the view it is given by value, and of the store.
\<close>

type_synonym base_exec =
  "tCTF_Term_base \<Rightarrow> tCTF_Idx_Tensor \<Rightarrow> machine \<Rightarrow> error + machine"

text \<open>
  \<open>operator=\<close>, \<open>operator+=\<close> and \<open>operator-=\<close> of \<open>tCTF_Idx_Tensor\<close>. Each writes the
  \<open>scale\<close> member of the receiver and then executes its copy \<open>B\<close> of the term against the
  receiver; \<open>operator-=\<close> multiplies \<open>B.scale\<close> by \<open>-1.0\<close> first. The model returns the
  receiver as the operator leaves it, together with the store.
\<close>

definition op_assign :: "base_exec \<Rightarrow> tCTF_Idx_Tensor \<Rightarrow> tCTF_Term \<Rightarrow> machine
    \<Rightarrow> error + tCTF_Idx_Tensor \<times> machine" where
  "op_assign X this t st =
     (let B = slice t;
          this1 = this\<lparr>scale := 0\<rparr>
      in case X B this1 st of
           Inl e \<Rightarrow> Inl e
         | Inr st' \<Rightarrow> Inr (this1, st'))"

definition op_add_assign :: "base_exec \<Rightarrow> tCTF_Idx_Tensor \<Rightarrow> tCTF_Term \<Rightarrow> machine
    \<Rightarrow> error + tCTF_Idx_Tensor \<times> machine" where
  "op_add_assign X this t st =
     (let B = slice t;
          this1 = this\<lparr>scale := 1\<rparr>
      in case X B this1 st of
           Inl e \<Rightarrow> Inl e
         | Inr st' \<Rightarrow> Inr (this1, st'))"

definition op_sub_assign :: "base_exec \<Rightarrow> tCTF_Idx_Tensor \<Rightarrow> tCTF_Term \<Rightarrow> machine
    \<Rightarrow> error + tCTF_Idx_Tensor \<times> machine" where
  "op_sub_assign X this t st =
     (let B = slice t;
          this1 = this\<lparr>scale := 1\<rparr>;
          B1 = B\<lparr>base_scale := base_scale B * (- 1)\<rparr>
      in case X B1 this1 st of
           Inl e \<Rightarrow> Inl e
         | Inr st' \<Rightarrow> Inr (this1, st'))"




section \<open>Sparse reads and writes\<close>

text \<open>
  \<open>CTF_Sparse_Tensor\<close>: the parent tensor, the global indices and a scale (the
  members \<open>parent\<close> and \<open>scale\<close>, renamed: the indexed tensor has fields of these names).
\<close>

record CTF_Sparse_Tensor =
  sparse_parent :: "addr option"
  indices :: "int list"
  sparse_scale :: dtype

text \<open>
  Modelled from the spec: the bodies of \<open>CTF_Sparse_Tensor::write\<close> and \<open>read\<close> are
  missing. The declarations document
  \<open>forall(j) i = indices[j]; parent[i] = beta*parent[i] + alpha*values[j]\<close> for
  \<open>write\<close> and \<open>forall(j) i = indices[j]; values[j] = alpha*parent[i] + beta*values[j]\<close>
  for \<open>read\<close>; the spec has the keys processed in their stored order, keys outside the
  tensor fail with IndexOutOfBounds before any entry is touched, and \<open>values\<close> must be
  sized to the number of keys.
\<close>

fun write_loop :: "dtype \<Rightarrow> dtype \<Rightarrow> int list \<Rightarrow> dtype list \<Rightarrow> dtype list \<Rightarrow> dtype list" where
  "write_loop alpha beta (k # ks) (v # vs) d =
     write_loop alpha beta ks vs (d[nat k := beta * d ! nat k + alpha * v])"
| "write_loop alpha beta ks vs d = d"

fun read_loop :: "dtype \<Rightarrow> dtype \<Rightarrow> int list \<Rightarrow> dtype list \<Rightarrow> dtype list \<Rightarrow> dtype list" where
  "read_loop alpha beta (k # ks) (v # vs) d =
     (alpha * d ! nat k + beta * v) # read_loop alpha beta ks vs d"
| "read_loop alpha beta ks vs d = vs"

text \<open>
  Modelled from the spec: a key is in range when it is a global index of the tensor.
\<close>

definition keys_in_range :: "int list \<Rightarrow> tCTF_Tensor \<Rightarrow> bool" where
  "keys_in_range ks T = list_all (\<lambda>k. 0 \<le> k \<and> k < int (length (data T))) ks"

text \<open>
  Modelled from the spec: \<open>write\<close> and \<open>read\<close> of a sparse view, with the loops above.
\<close>

definition Sparse_write :: "CTF_Sparse_Tensor \<Rightarrow> dtype \<Rightarrow> dtype list \<Rightarrow> dtype \<Rightarrow> machine
    \<Rightarrow> error + machine" where
  "Sparse_write this alpha values beta st =
     (case sparse_parent this of
        None \<Rightarrow> Inl Invalid_Pointer
      | Some p \<Rightarrow>
          if length (heap st) \<le> p then Inl Invalid_Pointer
          else if length values < length (indices this) then Inl Buffer_Overread
          else if \<not> keys_in_range (indices this) (heap st ! p) then Inl Index_Out_Of_Bounds
          else Inr (st\<lparr>heap := (heap st)[p := (heap st ! p)\<lparr>data :=
                      write_loop alpha beta (indices this) values (data (heap st ! p))\<rparr>]\<rparr>))"

definition Sparse_read :: "CTF_Sparse_Tensor \<Rightarrow> dtype \<Rightarrow> dtype list \<Rightarrow> dtype \<Rightarrow> machine
    \<Rightarrow> error + dtype list" where
  "Sparse_read this alpha values beta st =
     (case sparse_parent this of
        None \<Rightarrow> Inl Invalid_Pointer
      | Some p \<Rightarrow>
          if length (heap st) \<le> p then Inl Invalid_Pointer
          else if length values < length (indices this) then Inl Buffer_Overread
          else if \<not> keys_in_range (indices this) (heap st ! p) then Inl Index_Out_Of_Bounds
          else Inr (read_loop alpha beta (indices this) values (data (heap st ! p))))"

section \<open>Inferring an intermediate tensor\<close>

text \<open>
  \<open>get_intermediate(A, B)\<close> is kept in the source as a commented-out block; the model
  follows that text. The inner search loop
  \<open>for (j = 0; j < n; j++) if (c == s[j]) break;\<close> leaves \<open>j\<close> at the first match, or at
  \<open>n\<close> when there is none; \<open>find_from c s n 0\<close> is that final \<open>j\<close>.
\<close>

function find_from :: "char \<Rightarrow> string \<Rightarrow> nat \<Rightarrow> nat \<Rightarrow> nat" where
  "find_from c s n j =
     (if j < n then (if c = s ! j then j else find_from c s n (Suc j)) else j)"
  by pat_completeness auto
termination
  by (relation "measure (\<lambda>(c, s, n, j). n - j)") auto

declare find_from.simps [simp del]

text \<open>
  The two counting loops: \<open>ndim_C\<close> is incremented for every dimension of the operand
  and decremented again when its label is found in the other operand.
\<close>

definition count_unmatched :: "string \<Rightarrow> nat \<Rightarrow> string \<Rightarrow> nat \<Rightarrow> nat \<Rightarrow> nat" where
  "count_unmatched im n im' n' ndim_C =
     fold (\<lambda>i c. if find_from (im ! i) im' n' 0 < n' then (c + 1) - 1 else c + 1)
          [0..<n] ndim_C"

text \<open>The variables of the two filling loops: the cursor \<open>idx\<close> and the three arrays.\<close>

record fill_state =
  idx :: nat
  idx_C :: "char list"
  len_C :: "int list"
  sym_C :: "sym_tag list"

text \<open>
  The body executed for a dimension \<open>i\<close> whose label is not found in the other operand:
  the label and the length are stored at \<open>idx\<close>, the tag of the previous entry is set
  to the operand's tag when that entry holds the label of dimension \<open>i - 1\<close> and the tag
  is not \<open>NS\<close>, the tag at \<open>idx\<close> is set to \<open>NS\<close>, and \<open>idx\<close> advances.
\<close>

definition keep_dim :: "tCTF_Tensor \<Rightarrow> string \<Rightarrow> nat \<Rightarrow> fill_state \<Rightarrow> fill_state" where
  "keep_dim T im i s =
     (let s1 = s\<lparr>idx_C := (idx_C s)[idx s := im ! i]\<rparr>;
          s2 = s1\<lparr>len_C := (len_C s1)[idx s1 := len T ! i]\<rparr>;
          s3 = (if idx s2 \<ge> 1 \<and> i \<ge> 1 \<and> idx_C s2 ! (idx s2 - 1) = im ! (i - 1)
                   \<and> sym T ! (i - 1) \<noteq> NS
                then s2\<lparr>sym_C := (sym_C s2)[idx s2 - 1 := sym T ! (i - 1)]\<rparr>
                else s2);
          s4 = s3\<lparr>sym_C := (sym_C s3)[idx s3 := NS]\<rparr>
      in s4\<lparr>idx := idx s4 + 1\<rparr>)"

definition fill_from :: "tCTF_Tensor \<Rightarrow> string \<Rightarrow> string \<Rightarrow> nat \<Rightarrow> fill_state \<Rightarrow> fill_state" where
  "fill_from T im im' n' s0 =
     fold (\<lambda>i s. if find_from (im ! i) im' n' 0 = n' then keep_dim T im i s else s)
          [0..<ndim T] s0"

text \<open>
  Modelled from the spec: the constructor \<open>CTF_Tensor(ndim, len, sym, world)\<close> is only
  declared; its documentation has it make a tensor filled with zeros, and the global
  index of the header's documentation ranges over the product of the edge lengths.
\<close>

definition Tensor_zero :: "nat \<Rightarrow> int list \<Rightarrow> sym_tag list \<Rightarrow> tCTF_Tensor" where
  "Tensor_zero n ls ss =
     \<lparr>ndim = n, len = ls, sym = ss, data = replicate (nat (prod_list ls)) 0\<rparr>"

text \<open>
  The whole function. \<open>CTF_alloc\<close> returns memory of indeterminate content: the
  initial contents of the three arrays are the arguments \<open>gi\<close>, \<open>gl\<close> and \<open>gs\<close>. The
  view is built by the constructor above from the new tensor and the array \<open>idx_C\<close>
  (no terminating NUL), with its third argument left to its default, taken to be 0;
  then \<open>is_intm\<close> is set.
\<close>

definition get_intermediate :: "(nat \<Rightarrow> char) \<Rightarrow> (nat \<Rightarrow> int) \<Rightarrow> (nat \<Rightarrow> sym_tag)
    \<Rightarrow> tCTF_Idx_Tensor \<Rightarrow> tCTF_Idx_Tensor \<Rightarrow> machine \<Rightarrow> error + tCTF_Idx_Tensor \<times> machine" where
  "get_intermediate gi gl gs A B st =
     (case deref st (parent A) of
        None \<Rightarrow> Inl Invalid_Pointer
      | Some TA \<Rightarrow>
          (case deref st (parent B) of
             None \<Rightarrow> Inl Invalid_Pointer
           | Some TB \<Rightarrow>
               (let ndim_C = count_unmatched (idx_map B) (ndim TB) (idx_map A) (ndim TA)
                               (count_unmatched (idx_map A) (ndim TA) (idx_map B) (ndim TB) 0);
                    s0 = \<lparr>idx = 0, idx_C = map gi [0..<ndim_C], len_C = map gl [0..<ndim_C],
                          sym_C = map gs [0..<ndim_C]\<rparr>;
                    s1 = fill_from TA (idx_map A) (idx_map B) (ndim TB) s0;
                    s2 = fill_from TB (idx_map B) (idx_map A) (ndim TA) s1
                in case new_Tensor (Tensor_zero ndim_C (len_C s2) (sym_C s2)) st of
                     (p, st1) \<Rightarrow>
                       (case Idx_Tensor_ctor None (Some p) (idx_C s2) 0 st1 of
                          Inl e \<Rightarrow> Inl e
                        | Inr (out, st2) \<Rightarrow> Inr (out\<lparr>is_intm := 1\<rparr>, st2)))))"

text \<open>
  The dimensions of an operand labelled \<open>im\<close> that survive a contraction with an
  operand labelled \<open>im'\<close>, in order: those whose label does not occur in \<open>im'\<close>. A
  surviving dimension keeps its tag exactly when the next dimension of the same operand
  survives too.
\<close>

definition unmatched :: "string \<Rightarrow> string \<Rightarrow> nat list" where
  "unmatched im im' = filter (\<lambda>i. im ! i \<notin> set im') [0..<length im]"

definition kept_tags :: "tCTF_Tensor \<Rightarrow> string \<Rightarrow> string \<Rightarrow> sym_tag list" where
  "kept_tags T im im' =
     map (\<lambda>i. if Suc i < length im \<and> im ! Suc i \<notin> set im' then sym T ! i else NS)
         (unmatched im im')"

text \<open>A view is well formed in a store when its tensor is live and all lengths agree.\<close>

definition well_formed :: "machine \<Rightarrow> tCTF_Idx_Tensor \<Rightarrow> tCTF_Tensor \<Rightarrow> bool" where
  "well_formed st A T \<longleftrightarrow>
     deref st (parent A) = Some T \<and> length (idx_map A) = ndim T
       \<and> length (len T) = ndim T \<and> length (sym T) = ndim T"

text \<open>
  The invariant of a filling loop after the dimensions below \<open>k\<close> of the operand
  \<open>T\<close>, labelled \<open>im\<close>, have been visited, starting from the state \<open>s0\<close> with arrays of
  size \<open>N\<close>: the cursor has advanced by the number of surviving dimensions, the entries
  below the initial cursor are untouched, and the entries from there on hold the labels,
  lengths and tags of the surviving dimensions.
\<close>

definition fill_inv :: "tCTF_Tensor \<Rightarrow> string \<Rightarrow> string \<Rightarrow> fill_state \<Rightarrow> nat \<Rightarrow> nat
    \<Rightarrow> fill_state \<Rightarrow> bool" where
  "fill_inv T im im' s0 N k s \<longleftrightarrow>
     (let S = filter (\<lambda>i. im ! i \<notin> set im') [0..<k] in
        idx s = idx s0 + length S
      \<and> length (idx_C s) = N \<and> length (len_C s) = N \<and> length (sym_C s) = N
      \<and> (\<forall>q < idx s0. idx_C s ! q = idx_C s0 ! q \<and> len_C s ! q = len_C s0 ! q
              \<and> sym_C s ! q = sym_C s0 ! q)
      \<and> (\<forall>p < length S.
             idx_C s ! (idx s0 + p) = im ! (S ! p)
           \<and> len_C s ! (idx s0 + p) = len T ! (S ! p)
           \<and> sym_C s ! (idx s0 + p) =
               (if Suc (S ! p) < k \<and> im ! Suc (S ! p) \<notin> set im' then sym T ! (S ! p) else NS)))"

section \<open>Example values\<close>

text \<open>A kernel for operands that carry the same labels as the destination.\<close>

definition copy_kernel :: sum_kernel where
  "copy_kernel A idx_A sh idx_B g = data A ! g"

text \<open>An \<open>execute\<close> of the base class that leaves the store as it is.\<close>

definition idle_execute :: base_exec where
  "idle_execute B output st = Inr st"

definition demo_machine :: machine where
  "demo_machine =
     \<lparr>heap = [\<lparr>ndim = 1, len = [2], sym = [NS], data = [1, 2]\<rparr>,
              \<lparr>ndim = 1, len = [2], sym = [NS], data = [10, 20]\<rparr>],
      calls = []\<rparr>"

definition demo_src :: tCTF_Idx_Tensor where
  "demo_src = \<lparr>scale = 3, parent = Some 0, idx_map = ''i'', is_intm = 0\<rparr>"

definition demo_dst :: tCTF_Idx_Tensor where
  "demo_dst = \<lparr>scale = 7, parent = Some 1, idx_map = ''i'', is_intm = 0\<rparr>"

definition matrix_machine :: machine where
  "matrix_machine =
     \<lparr>heap = [\<lparr>ndim = 2, len = [2, 2], sym = [NS, NS], data = [1, 2, 3, 4]\<rparr>],
      calls = []\<rparr>"

text \<open>
  A store with a symmetric matrix, a plain matrix, a fully symmetric tensor of rank 3
  and a vector, and the view of the tensor at an address under a label string.
\<close>

definition sym_machine :: machine where
  "sym_machine =
     \<lparr>heap = [\<lparr>ndim = 2, len = [2, 2], sym = [SY, NS], data = [1, 2, 2, 3]\<rparr>,
              \<lparr>ndim = 2, len = [2, 2], sym = [NS, NS], data = [1, 0, 0, 1]\<rparr>,
              \<lparr>ndim = 3, len = [2, 2, 2], sym = [SY, SY, NS], data = [1, 1, 1, 1, 1, 1, 1, 1]\<rparr>,
              \<lparr>ndim = 1, len = [2], sym = [NS], data = [1, 1]\<rparr>],
      calls = []\<rparr>"

definition labelled :: "addr \<Rightarrow> string \<Rightarrow> tCTF_Idx_Tensor" where
  "labelled a s = \<lparr>scale = 1, parent = Some a, idx_map = s, is_intm = 0\<rparr>"

section \<open>Properties\<close>

subsection \<open>Execution of a leaf\<close>

text \<open>
  C1. Executing a leaf view \<open>L\<close> against a destination view \<open>D\<close>, both with live parent
  tensors, is exactly one call \<open>D.parent.sum(L.scale, L.parent, L.idx_map, D.scale,
  D.idx_map)\<close>: the result is that of the direct call, the call log grows by that single
  entry, no other tensor changes, and the destination keeps its shape and receives
  the data the primitive computes.
\<close>

theorem execute_is_one_sum:
  assumes "parent L = Some a" and "parent D = Some d"
    and "a < length (heap st)" and "d < length (heap st)"
  shows "idx_execute K L D st
           = Tensor_sum K d (scale L) a (idx_map L) (scale D) (idx_map D) st
       \<and> (\<exists>st'. idx_execute K L D st = Inr st'
            \<and> calls st' = calls st @ [Sum_call d (scale L) a (idx_map L) (scale D) (idx_map D)]
            \<and> length (heap st') = length (heap st)
            \<and> (\<forall>p < length (heap st). p \<noteq> d \<longrightarrow> heap st' ! p = heap st ! p)
            \<and> heap st' ! d = (heap st ! d)\<lparr>data :=
                 summed K (scale L) (heap st ! a) (idx_map L) (scale D) (idx_map D) (heap st ! d)\<rparr>)"
  using assms by (simp add: idx_execute_def Tensor_sum_def Let_def)

theorem execute_is_one_sum_witness:
  "idx_execute (\<lambda>A ia sh ib g. data A ! g)
     \<lparr>scale = 3, parent = Some 0, idx_map = ''i'', is_intm = 0\<rparr>
     \<lparr>scale = 1, parent = Some 1, idx_map = ''i'', is_intm = 0\<rparr>
     \<lparr>heap = [\<lparr>ndim = 1, len = [2], sym = [NS], data = [1, 2]\<rparr>,
              \<lparr>ndim = 1, len = [2], sym = [NS], data = [10, 20]\<rparr>], calls = []\<rparr>
   = Inr \<lparr>heap = [\<lparr>ndim = 1, len = [2], sym = [NS], data = [1, 2]\<rparr>,
                 \<lparr>ndim = 1, len = [2], sym = [NS], data = [13, 26]\<rparr>],
          calls = [Sum_call 1 3 0 ''i'' 1 ''i'']\<rparr>"
  using execute_is_one_sum [of
     "\<lparr>scale = 3, parent = Some 0, idx_map = ''i'', is_intm = 0\<rparr>" 0
     "\<lparr>scale = 1, parent = Some 1, idx_map = ''i'', is_intm = 0\<rparr>" 1
     "\<lparr>heap = [\<lparr>ndim = 1, len = [2], sym = [NS], data = [1, 2]\<rparr>,
              \<lparr>ndim = 1, len = [2], sym = [NS], data = [10, 20]\<rparr>], calls = []\<rparr>"
     "\<lambda>A ia sh ib g. data A ! g"]
  by (simp add: Tensor_sum_def summed_def shape_of_def upt_rec)

subsection \<open>The assignment operators\<close>

lemmas demo_defs = copy_kernel_def idle_execute_def demo_machine_def demo_src_def demo_dst_def

text \<open>
  C2. \<open>C = t\<close> sets the scale of \<open>C\<close> to 0 and executes its by-value copy of
  \<open>t\<close>. That copy holds the scale of the term and nothing else, so the outcome for
  a leaf does not depend on the tensor the leaf points to nor on its labels: for the
  destination \<open>[10, 20]\<close> the operator gives one and the same outcome for the leaf
  \<open>3 * [1, 2]\<close> and for the leaf \<open>3 * [10, 20]\<close>, whatever the base class's \<open>execute\<close>
  does, where the \<open>execute\<close> of the leaf itself would leave \<open>[3, 6]\<close> for the first and
  \<open>[30, 60]\<close> for the second.
\<close>

theorem assign_executes_sliced_copy:
  "op_assign X C t st =
      (case X (slice t) (C\<lparr>scale := 0\<rparr>) st of
         Inl e \<Rightarrow> Inl e
       | Inr st' \<Rightarrow> Inr (C\<lparr>scale := 0\<rparr>, st'))
   \<and> op_assign X C (Leaf (L\<lparr>parent := p, idx_map := m\<rparr>)) st = op_assign X C (Leaf L) st
   \<and> op_assign X demo_dst (Leaf (demo_src\<lparr>parent := Some 1\<rparr>)) demo_machine
       = op_assign X demo_dst (Leaf demo_src) demo_machine
   \<and> idx_execute copy_kernel demo_src (demo_dst\<lparr>scale := 0\<rparr>) demo_machine
       = Inr \<lparr>heap = [\<lparr>ndim = 1, len = [2], sym = [NS], data = [1, 2]\<rparr>,
                     \<lparr>ndim = 1, len = [2], sym = [NS], data = [3, 6]\<rparr>],
              calls = [Sum_call 1 3 0 ''i'' 0 ''i'']\<rparr>
   \<and> idx_execute copy_kernel (demo_src\<lparr>parent := Some 1\<rparr>) (demo_dst\<lparr>scale := 0\<rparr>)
         demo_machine
       = Inr \<lparr>heap = [\<lparr>ndim = 1, len = [2], sym = [NS], data = [1, 2]\<rparr>,
                     \<lparr>ndim = 1, len = [2], sym = [NS], data = [30, 60]\<rparr>],
              calls = [Sum_call 1 3 1 ''i'' 0 ''i'']\<rparr>"
  by (simp add: op_assign_def slice_def Let_def idx_execute_def Tensor_sum_def summed_def
      shape_of_def demo_defs upt_rec)

text \<open>
  C3. \<open>C += t\<close> sets the scale of \<open>C\<close> to 1 and executes its by-value copy of
  \<open>t\<close>. That copy holds the scale of the term and nothing else, so the outcome for
  a leaf does not depend on the tensor the leaf points to nor on its labels: for the
  destination \<open>[10, 20]\<close> the operator gives one and the same outcome for the leaf
  \<open>3 * [1, 2]\<close> and for the leaf \<open>3 * [10, 20]\<close>, whatever the base class's \<open>execute\<close>
  does, where the \<open>execute\<close> of the leaf itself would leave \<open>[13, 26]\<close> for the first and
  \<open>[40, 80]\<close> for the second.
\<close>

theorem add_assign_executes_sliced_copy:
  "op_add_assign X C t st =
      (case X (slice t) (C\<lparr>scale := 1\<rparr>) st of
         Inl e \<Rightarrow> Inl e
       | Inr st' \<Rightarrow> Inr (C\<lparr>scale := 1\<rparr>, st'))
   \<and> op_add_assign X C (Leaf (L\<lparr>parent := p, idx_map := m\<rparr>)) st = op_add_assign X C (Leaf L) st
   \<and> op_add_assign X demo_dst (Leaf (demo_src\<lparr>parent := Some 1\<rparr>)) demo_machine
       = op_add_assign X demo_dst (Leaf demo_src) demo_machine
   \<and> idx_execute copy_kernel demo_src (demo_dst\<lparr>scale := 1\<rparr>) demo_machine
       = Inr \<lparr>heap = [\<lparr>ndim = 1, len = [2], sym = [NS], data = [1, 2]\<rparr>,
                     \<lparr>ndim = 1, len = [2], sym = [NS], data = [13, 26]\<rparr>],
              calls = [Sum_call 1 3 0 ''i'' 1 ''i'']\<rparr>
   \<and> idx_execute copy_kernel (demo_src\<lparr>parent := Some 1\<rparr>) (demo_dst\<lparr>scale := 1\<rparr>)
         demo_machine
       = Inr \<lparr>heap = [\<lparr>ndim = 1, len = [2], sym = [NS], data = [1, 2]\<rparr>,
                     \<lparr>ndim = 1, len = [2], sym = [NS], data = [40, 80]\<rparr>],
              calls = [Sum_call 1 3 1 ''i'' 1 ''i'']\<rparr>"
  by (simp add: op_add_assign_def slice_def Let_def idx_execute_def Tensor_sum_def summed_def
      shape_of_def demo_defs upt_rec)

text \<open>
  C4. \<open>C -= t\<close> sets the scale of \<open>C\<close> to 1 and executes its by-value copy of
  \<open>t\<close>, with the scale of the copy negated first. That copy holds the scale of the term and nothing else, so the outcome for
  a leaf does not depend on the tensor the leaf points to nor on its labels: for the
  destination \<open>[10, 20]\<close> the operator gives one and the same outcome for the leaf
  \<open>3 * [1, 2]\<close> and for the leaf \<open>3 * [10, 20]\<close>, whatever the base class's \<open>execute\<close>
  does, where the \<open>execute\<close> of the leaf itself would leave \<open>[7, 14]\<close> for the first and
  \<open>[- 20, - 40]\<close> for the second.
\<close>

theorem sub_assign_executes_sliced_copy:
  "op_sub_assign X C t st =
      (case X ((slice t)\<lparr>base_scale := - term_scale t\<rparr>) (C\<lparr>scale := 1\<rparr>) st of
         Inl e \<Rightarrow> Inl e
       | Inr st' \<Rightarrow> Inr (C\<lparr>scale := 1\<rparr>, st'))
   \<and> op_sub_assign X C (Leaf (L\<lparr>parent := p, idx_map := m\<rparr>)) st = op_sub_assign X C (Leaf L) st
   \<and> op_sub_assign X demo_dst (Leaf (demo_src\<lparr>parent := Some 1\<rparr>)) demo_machine
       = op_sub_assign X demo_dst (Leaf demo_src) demo_machine
   \<and> idx_execute copy_kernel (demo_src\<lparr>scale := - 3\<rparr>) (demo_dst\<lparr>scale := 1\<rparr>) demo_machine
       = Inr \<lparr>heap = [\<lparr>ndim = 1, len = [2], sym = [NS], data = [1, 2]\<rparr>,
                     \<lparr>ndim = 1, len = [2], sym = [NS], data = [7, 14]\<rparr>],
              calls = [Sum_call 1 (- 3) 0 ''i'' 1 ''i'']\<rparr>
   \<and> idx_execute copy_kernel (demo_src\<lparr>scale := - 3, parent := Some 1\<rparr>) (demo_dst\<lparr>scale := 1\<rparr>)
         demo_machine
       = Inr \<lparr>heap = [\<lparr>ndim = 1, len = [2], sym = [NS], data = [1, 2]\<rparr>,
                     \<lparr>ndim = 1, len = [2], sym = [NS], data = [- 20, - 40]\<rparr>],
              calls = [Sum_call 1 (- 3) 1 ''i'' 1 ''i'']\<rparr>"
  by (simp add: op_sub_assign_def slice_def Let_def idx_execute_def Tensor_sum_def summed_def
      shape_of_def demo_defs upt_rec)


subsection \<open>Symmetry of an inferred intermediate\<close>

lemma find_from_le: "j \<le> n \<Longrightarrow> find_from c s n j \<le> n"
  by (induction c s n j rule: find_from.induct) (subst find_from.simps, simp)

lemma find_from_absent:
  "j \<le> length s \<Longrightarrow> (find_from c s (length s) j = length s) = (c \<notin> set (drop j s))"
proof (induction c s "length s" j rule: find_from.induct)
  case (1 c s j)
  show ?case
  proof (cases "j < length s")
    case True
    then have d: "drop j s = s ! j # drop (Suc j) s" by (simp add: Cons_nth_drop_Suc)
    show ?thesis
    proof (cases "c = s ! j")
      case True
      with \<open>j < length s\<close> d show ?thesis by (subst find_from.simps) simp
    next
      case False
      with \<open>j < length s\<close> d 1 show ?thesis by (subst find_from.simps) simp
    qed
  next
    case False
    with 1 show ?thesis by (subst find_from.simps) simp
  qed
qed

lemma find_from_0: "(find_from c s (length s) 0 = length s) = (c \<notin> set s)"
  using find_from_absent [of 0 s c] by simp

lemma find_from_0_less: "(find_from c s (length s) 0 < length s) = (c \<in> set s)"
  using find_from_0 [of c s] find_from_le [of 0 "length s" c s] by auto

lemma count_unmatched_eq:
  "count_unmatched im n im' (length im') c0
     = c0 + length (filter (\<lambda>i. im ! i \<notin> set im') [0..<n])"
  unfolding count_unmatched_def
  by (induction n) (simp_all add: find_from_0_less)

lemma keep_dim_fields:
  "idx (keep_dim T im i s) = idx s + 1"
  "idx_C (keep_dim T im i s) = (idx_C s)[idx s := im ! i]"
  "len_C (keep_dim T im i s) = (len_C s)[idx s := len T ! i]"
  "sym_C (keep_dim T im i s) =
     (if 1 \<le> idx s \<and> 1 \<le> i \<and> (idx_C s)[idx s := im ! i] ! (idx s - 1) = im ! (i - 1)
          \<and> sym T ! (i - 1) \<noteq> NS
      then (sym_C s)[idx s - 1 := sym T ! (i - 1)] else sym_C s)[idx s := NS]"
  by (simp_all add: keep_dim_def Let_def)

lemma filter_upt_nth_last:
  "p < length (filter P [0..<Suc j]) \<Longrightarrow>
     (filter P [0..<Suc j] ! p = j) = (P j \<and> p = length (filter P [0..<j]))"
proof -
  assume p: "p < length (filter P [0..<Suc j])"
  have lt: "q < length (filter P [0..<j]) \<Longrightarrow> filter P [0..<j] ! q < j" for q
    using nth_mem [of q "filter P [0..<j]"] by auto
  show ?thesis
  proof (cases "P j")
    case True
    with p lt [of p] show ?thesis by (auto simp: nth_append)
  next
    case False
    with p lt [of p] show ?thesis by auto
  qed
qed

lemma fill_inv_skip:
  assumes inv: "fill_inv T im im' s0 N k s" and nk: "im ! k \<in> set im'"
  shows "fill_inv T im im' s0 N (Suc k) s"
proof -
  have "Suc i < Suc k \<and> im ! Suc i \<notin> set im' \<longleftrightarrow> Suc i < k \<and> im ! Suc i \<notin> set im'" for i
    using nk by (auto simp: less_Suc_eq)
  with inv nk show ?thesis
    by (simp add: fill_inv_def Let_def)
qed

lemma fill_inv_keep:
  assumes inv: "fill_inv T im im' s0 N k s" and pk: "im ! k \<notin> set im'"
    and k: "k < length im"
    and room: "idx s0 + length (filter (\<lambda>i. im ! i \<notin> set im') [0..<Suc k]) \<le> N"
    and sep: "1 \<le> idx s0 \<longrightarrow> idx_C s0 ! (idx s0 - 1) \<notin> set im"
  shows "fill_inv T im im' s0 N (Suc k) (keep_dim T im k s)"
proof -
  let ?P = "\<lambda>i. im ! i \<notin> set im'"
  let ?S = "filter ?P [0..<k]"
  let ?m = "idx s"
  from inv have m: "?m = idx s0 + length ?S"
    and lens: "length (idx_C s) = N" "length (len_C s) = N" "length (sym_C s) = N"
    and low: "\<And>q. q < idx s0 \<Longrightarrow> idx_C s ! q = idx_C s0 ! q \<and> len_C s ! q = len_C s0 ! q
              \<and> sym_C s ! q = sym_C s0 ! q"
    and up: "\<And>p. p < length ?S \<Longrightarrow> idx_C s ! (idx s0 + p) = im ! (?S ! p)
           \<and> len_C s ! (idx s0 + p) = len T ! (?S ! p)
           \<and> sym_C s ! (idx s0 + p) =
               (if Suc (?S ! p) < k \<and> ?P (Suc (?S ! p)) then sym T ! (?S ! p) else NS)"
    by (simp_all add: fill_inv_def Let_def)
  from room pk m have mN: "?m < N" by simp
  have S': "filter ?P [0..<Suc k] = ?S @ [k]" using pk by simp
  \<comment> \<open>the label test of the source identifies the previous dimension\<close>
  have test: "(1 \<le> ?m \<and> 1 \<le> k \<and> (idx_C s)[?m := im ! k] ! (?m - 1) = im ! (k - 1))
                \<longleftrightarrow> (1 \<le> k \<and> ?P (k - 1))"
  proof (cases k)
    case 0
    then show ?thesis by simp
  next
    case (Suc j)
    show ?thesis
    proof (cases "?P j")
      case True
      then have "?S = filter ?P [0..<j] @ [j]" using Suc by simp
      then have "length ?S = Suc (length (filter ?P [0..<j]))" "?S ! (length ?S - 1) = j"
        by (simp_all add: nth_append)
      with up [of "length ?S - 1"] m True Suc show ?thesis by simp
    next
      case False
      have "\<not> (1 \<le> ?m \<and> (idx_C s)[?m := im ! k] ! (?m - 1) = im ! j)"
      proof
        assume a: "1 \<le> ?m \<and> (idx_C s)[?m := im ! k] ! (?m - 1) = im ! j"
        then have "?m - 1 \<noteq> ?m" by arith
        with a have eq: "idx_C s ! (?m - 1) = im ! j" by simp
        show False
        proof (cases "?S = []")
          case True
          with m a have "1 \<le> idx s0" "?m = idx s0" by simp_all
          with low [of "idx s0 - 1"] eq sep have "im ! j \<notin> set im" by simp
          moreover have "im ! j \<in> set im" using k Suc by simp
          ultimately show False by simp
        next
          case False
          then have l: "length ?S - 1 < length ?S" by simp
          from False m have "?m - 1 = idx s0 + (length ?S - 1)" by (cases ?S) simp_all
          with up [OF l] eq have "im ! (?S ! (length ?S - 1)) = im ! j" by simp
          moreover have "?P (?S ! (length ?S - 1))"
            using nth_mem [OF l] by simp
          ultimately show False using \<open>\<not> ?P j\<close> by simp
        qed
      qed
      with False Suc show ?thesis by simp
    qed
  qed
  have tags: "sym_C (keep_dim T im k s) =
     (if 1 \<le> k \<and> ?P (k - 1) \<and> sym T ! (k - 1) \<noteq> NS
      then (sym_C s)[?m - 1 := sym T ! (k - 1)] else sym_C s)[?m := NS]"
    using test by (auto simp: keep_dim_fields)
  show ?thesis
    unfolding fill_inv_def Let_def S'
  proof (intro conjI allI impI)
    show "idx (keep_dim T im k s) = idx s0 + length (?S @ [k])"
      using m by (simp add: keep_dim_fields)
    show "length (idx_C (keep_dim T im k s)) = N" "length (len_C (keep_dim T im k s)) = N"
      "length (sym_C (keep_dim T im k s)) = N"
      using lens by (simp_all add: keep_dim_fields)
  next
    fix q assume q: "q < idx s0"
    have q1: "q \<noteq> ?m" using q m by simp
    have q2: "q \<noteq> ?m - 1 \<or> \<not> (1 \<le> k \<and> ?P (k - 1))"
    proof (cases "1 \<le> k \<and> ?P (k - 1)")
      case True
      then obtain j where j: "k = Suc j" "?P j" by (cases k) auto
      then have "length ?S = Suc (length (filter ?P [0..<j]))" by simp
      with q m show ?thesis by simp
    next
      case False
      then show ?thesis by simp
    qed
    from q1 q2 show "idx_C (keep_dim T im k s) ! q = idx_C s0 ! q"
      "len_C (keep_dim T im k s) ! q = len_C s0 ! q"
      "sym_C (keep_dim T im k s) ! q = sym_C s0 ! q"
      using low [OF q] by (auto simp: keep_dim_fields(2,3) tags)
  next
    fix p assume p: "p < length (?S @ [k])"
    show "idx_C (keep_dim T im k s) ! (idx s0 + p) = im ! ((?S @ [k]) ! p)"
      using p up [of p] m mN lens by (auto simp: keep_dim_fields nth_append less_Suc_eq)
    show "len_C (keep_dim T im k s) ! (idx s0 + p) = len T ! ((?S @ [k]) ! p)"
      using p up [of p] m mN lens by (auto simp: keep_dim_fields nth_append less_Suc_eq)
    show "sym_C (keep_dim T im k s) ! (idx s0 + p) =
        (if Suc ((?S @ [k]) ! p) < Suc k \<and> ?P (Suc ((?S @ [k]) ! p))
         then sym T ! ((?S @ [k]) ! p) else NS)"
    proof (cases "p = length ?S")
      case True
      then show ?thesis using m mN lens by (simp add: tags)
    next
      case False
      with p have pl: "p < length ?S" by simp
      then have ne: "idx s0 + p \<noteq> ?m" using m by simp
      have nthp: "(?S @ [k]) ! p = ?S ! p" using pl by (simp add: nth_append)
      have Sp: "?P (?S ! p)" "?S ! p < k" using nth_mem [OF pl] by simp_all
      then have k1: "1 \<le> k" by simp
      have last: "(?S ! p = k - 1) = (?P (k - 1) \<and> p = length (filter ?P [0..<k - 1]))"
      proof -
        from k1 obtain j where j: "k = Suc j" by (cases k) auto
        with pl have "p < length (filter ?P [0..<Suc j])" by simp
        from filter_upt_nth_last [OF this] show ?thesis unfolding j by simp
      qed
      have lenS: "?P (k - 1) \<Longrightarrow> length ?S = Suc (length (filter ?P [0..<k - 1]))"
      proof -
        assume a: "?P (k - 1)"
        from k1 obtain j where j: "k = Suc j" by (cases k) auto
        with a show ?thesis by simp
      qed
      show ?thesis
      proof (cases "?S ! p = k - 1")
        case True
        with last have Pj: "?P (k - 1)" and pj: "p = length (filter ?P [0..<k - 1])"
          by simp_all
        from lenS [OF Pj] pj m have pos: "idx s0 + p = ?m - 1" by simp
        have lt: "?m - 1 < N" using mN by simp
        have neq: "?m - 1 \<noteq> ?m" using pos ne by simp
        have old: "sym_C s ! (?m - 1) = NS"
          using up [OF pl] True k1 pos by simp
        have new: "sym_C (keep_dim T im k s) ! (?m - 1) = sym T ! (k - 1)"
        proof (cases "sym T ! (k - 1) = NS")
          case True
          then have "sym_C (keep_dim T im k s) = (sym_C s)[?m := NS]"
            using tags by simp
          with neq old True show ?thesis by simp
        next
          case False
          then have "sym_C (keep_dim T im k s)
                       = (sym_C s)[?m - 1 := sym T ! (k - 1), ?m := NS]"
            using tags k1 Pj by simp
          with neq lt lens show ?thesis by simp
        qed
        have "Suc (k - 1) = k" using k1 by simp
        then show ?thesis
          unfolding nthp True pos new using pk by simp
      next
        case False
        with Sp have lt: "Suc (?S ! p) < k" by arith
        have "idx s0 + p \<noteq> ?m - 1 \<or> \<not> ?P (k - 1)"
        proof (cases "?P (k - 1)")
          case True
          with False last have "p \<noteq> length (filter ?P [0..<k - 1])" by simp
          with lenS [OF True] m pl show ?thesis by simp
        next
          case False
          then show ?thesis by simp
        qed
        then have "sym_C (keep_dim T im k s) ! (idx s0 + p) = sym_C s ! (idx s0 + p)"
          using ne by (auto simp: tags)
        with up [OF pl] lt show ?thesis
          unfolding nthp by simp
      qed
    qed
  qed
qed

lemma fill_prefix:
  assumes lens: "length (idx_C s0) = N" "length (len_C s0) = N" "length (sym_C s0) = N"
    and sep: "1 \<le> idx s0 \<longrightarrow> idx_C s0 ! (idx s0 - 1) \<notin> set im"
  shows "k \<le> length im \<Longrightarrow>
         idx s0 + length (filter (\<lambda>i. im ! i \<notin> set im') [0..<k]) \<le> N \<Longrightarrow>
         fill_inv T im im' s0 N k
           (fold (\<lambda>i s. if find_from (im ! i) im' (length im') 0 = length im'
                         then keep_dim T im i s else s) [0..<k] s0)"
proof (induction k)
  case 0
  with lens show ?case by (simp add: fill_inv_def)
next
  case (Suc k)
  let ?s = "fold (\<lambda>i s. if find_from (im ! i) im' (length im') 0 = length im'
                         then keep_dim T im i s else s) [0..<k] s0"
  have "idx s0 + length (filter (\<lambda>i. im ! i \<notin> set im') [0..<k]) \<le> N"
    using Suc.prems(2) by (simp split: if_splits)
  with Suc have inv: "fill_inv T im im' s0 N k ?s" by simp
  show ?case
  proof (cases "im ! k \<in> set im'")
    case True
    with fill_inv_skip [OF inv True] show ?thesis by (simp add: find_from_0)
  next
    case False
    have "fill_inv T im im' s0 N (Suc k) (keep_dim T im k ?s)"
      using inv False Suc.prems sep by (intro fill_inv_keep) simp_all
    with False show ?thesis by (simp add: find_from_0)
  qed
qed

lemma fill_from_inv:
  assumes "ndim T = length im" and "n' = length im'"
    and "length (idx_C s0) = N" "length (len_C s0) = N" "length (sym_C s0) = N"
    and "1 \<le> idx s0 \<longrightarrow> idx_C s0 ! (idx s0 - 1) \<notin> set im"
    and "idx s0 + length (unmatched im im') \<le> N"
  shows "fill_inv T im im' s0 N (length im) (fill_from T im im' n' s0)"
  using fill_prefix [OF assms(3-6), of "length im" im' T] assms(1,2,7)
  by (simp add: fill_from_def unmatched_def)

lemma two_part_list:
  assumes "length xs = length as + length bs"
    and "\<And>i. i < length as \<Longrightarrow> xs ! i = as ! i"
    and "\<And>p. p < length bs \<Longrightarrow> xs ! (length as + p) = bs ! p"
  shows "xs = as @ bs"
proof (rule nth_equalityI)
  show "length xs = length (as @ bs)" using assms(1) by simp
next
  fix i assume i: "i < length xs"
  show "xs ! i = (as @ bs) ! i"
  proof (cases "i < length as")
    case True
    with assms(2) show ?thesis by (simp add: nth_append)
  next
    case False
    with i assms(1) have "i - length as < length bs" by simp
    from assms(3) [OF this] False show ?thesis by (simp add: nth_append)
  qed
qed

lemma filled_arrays:
  assumes A: "ndim TA = length imA" and B: "ndim TB = length imB"
    and N: "N = length (unmatched imA imB) + length (unmatched imB imA)"
    and s0: "idx s0 = 0" "length (idx_C s0) = N" "length (len_C s0) = N" "length (sym_C s0) = N"
    and s2: "s2 = fill_from TB imB imA (ndim TA) (fill_from TA imA imB (ndim TB) s0)"
  shows "idx_C s2 = map ((!) imA) (unmatched imA imB) @ map ((!) imB) (unmatched imB imA)"
    and "len_C s2 = map ((!) (len TA)) (unmatched imA imB) @ map ((!) (len TB)) (unmatched imB imA)"
    and "sym_C s2 = kept_tags TA imA imB @ kept_tags TB imB imA"
proof -
  let ?uA = "unmatched imA imB" and ?uB = "unmatched imB imA"
  let ?s1 = "fill_from TA imA imB (ndim TB) s0"
  have inv1: "fill_inv TA imA imB s0 N (length imA) ?s1"
    using A B N s0 by (intro fill_from_inv) simp_all
  then have i1: "idx ?s1 = length ?uA"
    and l1: "length (idx_C ?s1) = N" "length (len_C ?s1) = N" "length (sym_C ?s1) = N"
    and u1: "\<And>p. p < length ?uA \<Longrightarrow> idx_C ?s1 ! p = imA ! (?uA ! p)
           \<and> len_C ?s1 ! p = len TA ! (?uA ! p)
           \<and> sym_C ?s1 ! p = kept_tags TA imA imB ! p"
    using s0 by (simp_all add: fill_inv_def Let_def unmatched_def kept_tags_def)
  have sep: "1 \<le> idx ?s1 \<longrightarrow> idx_C ?s1 ! (idx ?s1 - 1) \<notin> set imB"
  proof
    assume "1 \<le> idx ?s1"
    with i1 have l: "length ?uA - 1 < length ?uA" by simp
    from nth_mem [OF l] have "imA ! (?uA ! (length ?uA - 1)) \<notin> set imB"
      by (simp add: unmatched_def)
    with u1 [OF l] i1 show "idx_C ?s1 ! (idx ?s1 - 1) \<notin> set imB" by simp
  qed
  have inv2: "fill_inv TB imB imA ?s1 N (length imB) s2"
    unfolding s2 using A B N l1 sep i1 by (intro fill_from_inv) simp_all
  then have l2: "length (idx_C s2) = N" "length (len_C s2) = N" "length (sym_C s2) = N"
    and low2: "\<And>q. q < length ?uA \<Longrightarrow> idx_C s2 ! q = idx_C ?s1 ! q
           \<and> len_C s2 ! q = len_C ?s1 ! q \<and> sym_C s2 ! q = sym_C ?s1 ! q"
    and u2: "\<And>p. p < length ?uB \<Longrightarrow> idx_C s2 ! (length ?uA + p) = imB ! (?uB ! p)
           \<and> len_C s2 ! (length ?uA + p) = len TB ! (?uB ! p)
           \<and> sym_C s2 ! (length ?uA + p) = kept_tags TB imB imA ! p"
    using i1 by (simp_all add: fill_inv_def Let_def unmatched_def kept_tags_def)
  show "idx_C s2 = map ((!) imA) ?uA @ map ((!) imB) ?uB"
    using l2 N low2 u1 u2 by (intro two_part_list) simp_all
  show "len_C s2 = map ((!) (len TA)) ?uA @ map ((!) (len TB)) ?uB"
    using l2 N low2 u1 u2 by (intro two_part_list) simp_all
  show "sym_C s2 = kept_tags TA imA imB @ kept_tags TB imB imA"
    using l2 N low2 u1 u2 by (intro two_part_list) (simp_all add: kept_tags_def)
qed

text \<open>
  C6 (as amended). For well-formed operands \<open>get_intermediate\<close> succeeds and allocates
  one zero tensor: its labels and edge lengths are those of the surviving dimensions of
  \<open>A\<close> followed by those of \<open>B\<close>, and a surviving dimension carries its operand's tag
  exactly when the next dimension of the same operand survives too, and \<open>NS\<close>
  otherwise. So the first dimension of a split symmetric pair carries \<open>NS\<close>, and the
  second carries only the tag that relates it to a surviving successor.
\<close>

theorem intermediate_tags:
  assumes A: "well_formed st A TA" and B: "well_formed st B TB"
  shows "\<exists>out st' TC.
           get_intermediate gi gl gs A B st = Inr (out, st')
         \<and> heap st' = heap st @ [TC] \<and> parent out = Some (length (heap st))
         \<and> is_intm out = 1
         \<and> idx_map out = map ((!) (idx_map A)) (unmatched (idx_map A) (idx_map B))
                          @ map ((!) (idx_map B)) (unmatched (idx_map B) (idx_map A))
         \<and> ndim TC = length (unmatched (idx_map A) (idx_map B))
                       + length (unmatched (idx_map B) (idx_map A))
         \<and> len TC = map ((!) (len TA)) (unmatched (idx_map A) (idx_map B))
                      @ map ((!) (len TB)) (unmatched (idx_map B) (idx_map A))
         \<and> sym TC = kept_tags TA (idx_map A) (idx_map B) @ kept_tags TB (idx_map B) (idx_map A)"
proof -
  let ?imA = "idx_map A" and ?imB = "idx_map B"
  let ?N = "length (unmatched ?imA ?imB) + length (unmatched ?imB ?imA)"
  from A B have dA: "deref st (parent A) = Some TA" and dB: "deref st (parent B) = Some TB"
    and nA: "ndim TA = length ?imA" and nB: "ndim TB = length ?imB"
    by (simp_all add: well_formed_def)
  have cnt: "count_unmatched ?imB (ndim TB) ?imA (ndim TA)
               (count_unmatched ?imA (ndim TA) ?imB (ndim TB) 0) = ?N"
    by (simp add: nA nB count_unmatched_eq unmatched_def)
  let ?s0 = "\<lparr>idx = 0, idx_C = map gi [0..<?N], len_C = map gl [0..<?N],
               sym_C = map gs [0..<?N]\<rparr>"
  let ?s2 = "fill_from TB ?imB ?imA (ndim TA) (fill_from TA ?imA ?imB (ndim TB) ?s0)"
  have arrays:
    "idx_C ?s2 = map ((!) ?imA) (unmatched ?imA ?imB) @ map ((!) ?imB) (unmatched ?imB ?imA)"
    "len_C ?s2 = map ((!) (len TA)) (unmatched ?imA ?imB)
                   @ map ((!) (len TB)) (unmatched ?imB ?imA)"
    "sym_C ?s2 = kept_tags TA ?imA ?imB @ kept_tags TB ?imB ?imA"
    using filled_arrays [OF nA nB refl, of ?s0 ?s2] by simp_all
  let ?TC = "Tensor_zero ?N (len_C ?s2) (sym_C ?s2)"
  let ?st1 = "st\<lparr>heap := heap st @ [?TC]\<rparr>"
  have ctor: "Idx_Tensor_ctor None (Some (length (heap st))) (idx_C ?s2) 0 ?st1
      = Inr (\<lparr>scale = 1, parent = Some (length (heap st)), idx_map = idx_C ?s2, is_intm = 0\<rparr>,
             ?st1)"
    by (simp add: Idx_Tensor_ctor_def deref_def memcpy_def Tensor_zero_def arrays(1))
  have "get_intermediate gi gl gs A B st
      = Inr (\<lparr>scale = 1, parent = Some (length (heap st)), idx_map = idx_C ?s2, is_intm = 1\<rparr>,
             ?st1)"
    unfolding get_intermediate_def dA dB
    by (simp add: cnt Let_def new_Tensor_def ctor)
  then show ?thesis
    using arrays by (simp add: Tensor_zero_def)
qed

theorem intermediate_tags_witness:
  "well_formed sym_machine (labelled 0 ''ik'') (heap sym_machine ! 0)
   \<and> well_formed sym_machine (labelled 1 ''kj'') (heap sym_machine ! 1)
   \<and> get_intermediate (\<lambda>i. CHR ''?'') (\<lambda>i. 0) (\<lambda>i. AS) (labelled 0 ''ik'') (labelled 1 ''kj'')
        sym_machine
      = Inr (\<lparr>scale = 1, parent = Some 4, idx_map = ''ij'', is_intm = 1\<rparr>,
             sym_machine\<lparr>heap := heap sym_machine
                @ [\<lparr>ndim = 2, len = [2, 2], sym = [NS, NS], data = [0, 0, 0, 0]\<rparr>]\<rparr>)"
proof -
  have wf: "well_formed sym_machine (labelled 0 ''ik'') (heap sym_machine ! 0)"
    "well_formed sym_machine (labelled 1 ''kj'') (heap sym_machine ! 1)"
    by (simp_all add: well_formed_def deref_def sym_machine_def labelled_def)
  have ev: "get_intermediate (\<lambda>i. CHR ''?'') (\<lambda>i. 0) (\<lambda>i. AS) (labelled 0 ''ik'') (labelled 1 ''kj'')
        sym_machine
      = Inr (\<lparr>scale = 1, parent = Some 4, idx_map = ''ij'', is_intm = 1\<rparr>,
             sym_machine\<lparr>heap := heap sym_machine
                @ [\<lparr>ndim = 2, len = [2, 2], sym = [NS, NS], data = [0, 0, 0, 0]\<rparr>]\<rparr>)"
    by code_simp
  from intermediate_tags [OF wf, of "\<lambda>i. CHR ''?''" "\<lambda>i. 0" "\<lambda>i. AS"] ev wf
  show ?thesis by simp
qed

text \<open>
  A fully symmetric tensor of rank 3 labelled \<open>kab\<close>, contracted over \<open>k\<close>: the first two
  dimensions form a symmetric pair of which only the second survives, and it carries
  \<open>SY\<close> in the intermediate, for its intact symmetry with the third.
\<close>

theorem split_pair_keeps_symmetric_tag:
  "get_intermediate (\<lambda>i. CHR ''?'') (\<lambda>i. 0) (\<lambda>i. AS) (labelled 2 ''kab'') (labelled 3 ''k'')
        sym_machine
      = Inr (\<lparr>scale = 1, parent = Some 4, idx_map = ''ab'', is_intm = 1\<rparr>,
             sym_machine\<lparr>heap := heap sym_machine
                @ [\<lparr>ndim = 2, len = [2, 2], sym = [SY, NS], data = [0, 0, 0, 0]\<rparr>]\<rparr>)"
  by code_simp

subsection \<open>Sparse round trip\<close>

lemma write_loop_length [simp]: "length (write_loop alpha beta ks vs d) = length d"
  by (induction alpha beta ks vs d rule: write_loop.induct) simp_all

lemma write_loop_other:
  "0 \<le> k \<Longrightarrow> k \<notin> set ks \<Longrightarrow> \<forall>k' \<in> set ks. 0 \<le> k' \<Longrightarrow>
     write_loop alpha beta ks vs d ! nat k = d ! nat k"
proof (induction alpha beta ks vs d rule: write_loop.induct)
  case (1 alpha beta k' ks v vs d)
  then have "nat k' \<noteq> nat k" by auto
  with 1 show ?case by simp
qed simp_all

lemma read_after_write:
  "distinct ks \<Longrightarrow> \<forall>k \<in> set ks. 0 \<le> k \<and> k < int (length d) \<Longrightarrow> length vs = length ks
     \<Longrightarrow> length out = length ks
     \<Longrightarrow> read_loop 1 0 ks out (write_loop 1 0 ks vs d) = vs"
proof (induction ks arbitrary: vs out d)
  case Nil
  then show ?case by simp
next
  case (Cons k ks)
  then obtain v vs' where vs: "vs = v # vs'" by (cases vs) auto
  from Cons obtain x out' where out: "out = x # out'" by (cases out) auto
  let ?d1 = "d[nat k := 0 * d ! nat k + 1 * v]"
  have kr: "0 \<le> k" "nat k < length d" using Cons.prems(2) by auto
  have "write_loop 1 0 ks vs' ?d1 ! nat k = ?d1 ! nat k"
    using Cons.prems(1,2) by (intro write_loop_other) auto
  then have hd: "write_loop 1 0 ks vs' ?d1 ! nat k = v" using kr by simp
  have tl: "read_loop 1 0 ks out' (write_loop 1 0 ks vs' ?d1) = vs'"
    using Cons.prems vs out by (intro Cons.IH) auto
  show ?case using hd tl by (simp add: vs out)
qed

text \<open>
  C7 (as amended). For a sparse view with a live parent whose keys are in range and
  pairwise distinct, and values \<open>v\<close> of matching length, \<open>write(1, v, 0)\<close> succeeds and
  an immediately following \<open>read(1, out, 0)\<close> on the same keys returns exactly \<open>v\<close>,
  whatever \<open>out\<close> held before.
\<close>

theorem sparse_round_trip:
  assumes "sparse_parent S = Some p" and "p < length (heap st)"
    and "keys_in_range (indices S) (heap st ! p)"
    and "distinct (indices S)"
    and "length v = length (indices S)" and "length out = length (indices S)"
  shows "\<exists>st'. Sparse_write S 1 v 0 st = Inr st' \<and> Sparse_read S 1 out 0 st' = Inr v"
proof -
  let ?T = "heap st ! p"
  let ?st' = "st\<lparr>heap := (heap st)[p := ?T\<lparr>data :=
                      write_loop 1 0 (indices S) v (data ?T)\<rparr>]\<rparr>"
  have w: "Sparse_write S 1 v 0 st = Inr ?st'"
    using assms by (simp add: Sparse_write_def)
  have rng: "\<forall>k \<in> set (indices S). 0 \<le> k \<and> k < int (length (data ?T))"
    using assms(3) by (simp add: keys_in_range_def list_all_iff)
  have "read_loop 1 0 (indices S) out (write_loop 1 0 (indices S) v (data ?T)) = v"
    using assms(4) rng assms(5,6) by (rule read_after_write)
  then have "Sparse_read S 1 out 0 ?st' = Inr v"
    using assms by (simp add: Sparse_read_def keys_in_range_def)
  with w show ?thesis by blast
qed

theorem sparse_round_trip_witness:
  "Sparse_write \<lparr>sparse_parent = Some 0, indices = [1, 0], sparse_scale = 1\<rparr> 1 [5, 7] 0
       demo_machine
     = Inr \<lparr>heap = [\<lparr>ndim = 1, len = [2], sym = [NS], data = [7, 5]\<rparr>,
                   \<lparr>ndim = 1, len = [2], sym = [NS], data = [10, 20]\<rparr>],
            calls = []\<rparr>
   \<and> Sparse_read \<lparr>sparse_parent = Some 0, indices = [1, 0], sparse_scale = 1\<rparr> 1 [0, 0] 0
       \<lparr>heap = [\<lparr>ndim = 1, len = [2], sym = [NS], data = [7, 5]\<rparr>,
               \<lparr>ndim = 1, len = [2], sym = [NS], data = [10, 20]\<rparr>],
        calls = []\<rparr>
     = Inr [5, 7]"
  using sparse_round_trip [of "\<lparr>sparse_parent = Some 0, indices = [1, 0], sparse_scale = 1\<rparr>"
      0 demo_machine "[5, 7]" "[0, 0]"]
  by (simp add: Sparse_write_def Sparse_read_def keys_in_range_def demo_machine_def)

text \<open>
  With the key 0 stored twice and the values 5 and 7, the second write replaces the
  first and the read returns 7 at both positions.
\<close>

theorem sparse_round_trip_repeated_key:
  "Sparse_write \<lparr>sparse_parent = Some 0, indices = [0, 0], sparse_scale = 1\<rparr> 1 [5, 7] 0
       demo_machine
     = Inr \<lparr>heap = [\<lparr>ndim = 1, len = [2], sym = [NS], data = [7, 2]\<rparr>,
                   \<lparr>ndim = 1, len = [2], sym = [NS], data = [10, 20]\<rparr>],
            calls = []\<rparr>
   \<and> Sparse_read \<lparr>sparse_parent = Some 0, indices = [0, 0], sparse_scale = 1\<rparr> 1 [0, 0] 0
       \<lparr>heap = [\<lparr>ndim = 1, len = [2], sym = [NS], data = [7, 2]\<rparr>,
               \<lparr>ndim = 1, len = [2], sym = [NS], data = [10, 20]\<rparr>],
        calls = []\<rparr>
     = Inr [7, 7]"
  by (simp add: Sparse_write_def Sparse_read_def keys_in_range_def demo_machine_def)

subsection \<open>Construction of a view\<close>

text \<open>
  C8 (as amended). The constructor has no check of the label string's length and never
  reports a shape mismatch. With the copy flag unset and a live tensor of rank at most
  the length of the string, construction succeeds, leaves the store as it is, and the
  index map of the view is the first \<open>ndim\<close> labels of the string: the string itself
  when its length is the rank, a silently truncated one when it is longer.
\<close>

theorem view_construction_unchecked:
  "Idx_Tensor_ctor uninit parent_in buf copy st \<noteq> Inl Shape_Mismatch
   \<and> (deref st parent_in = Some T \<longrightarrow> ndim T \<le> length s \<longrightarrow>
        Idx_Tensor_ctor uninit parent_in (c_str s) 0 st
          = Inr (\<lparr>scale = 1, parent = parent_in, idx_map = take (ndim T) s, is_intm = 0\<rparr>, st))
   \<and> (deref st parent_in = Some T \<longrightarrow> ndim T = length s \<longrightarrow>
        Idx_Tensor_ctor uninit parent_in (c_str s) 0 st
          = Inr (\<lparr>scale = 1, parent = parent_in, idx_map = s, is_intm = 0\<rparr>, st))"
  by (auto simp: Idx_Tensor_ctor_def memcpy_def c_str_def new_Tensor_def
      split: option.splits sum.splits if_splits)

theorem view_construction_unchecked_witness:
  "Idx_Tensor_ctor None (Some 0) (c_str ''ij'') 0 matrix_machine
     = Inr (\<lparr>scale = 1, parent = Some 0, idx_map = ''ij'', is_intm = 0\<rparr>, matrix_machine)"
  using view_construction_unchecked [of None "Some 0" "c_str ''ij''" 0 matrix_machine
      "\<lparr>ndim = 2, len = [2, 2], sym = [NS, NS], data = [1, 2, 3, 4]\<rparr>" "''ij''"]
  by (simp add: deref_def matrix_machine_def)

text \<open>
  A label string of length 3 over a tensor of rank 2: the view is built, with the first
  two labels, and no shape mismatch is reported.
\<close>

theorem view_construction_accepts_wrong_length:
  "Idx_Tensor_ctor None (Some 0) (c_str ''ijk'') 0 matrix_machine
     = Inr (\<lparr>scale = 1, parent = Some 0, idx_map = ''ij'', is_intm = 0\<rparr>, matrix_machine)"
  by (simp add: Idx_Tensor_ctor_def deref_def memcpy_def c_str_def matrix_machine_def)

text \<open>
  C9. With the copy flag set the constructor copies the tensor that the not yet assigned
  member \<open>parent\<close> happens to point to, never the tensor it was given: asked
  for a copy of the tensor at address 0, it fails when the member is null, and when the
  member points to the tensor at address 1 the view's parent is a copy of that tensor.
\<close>

theorem copy_construction_ignores_argument:
  "Idx_Tensor_ctor None (Some 0) (c_str ''i'') 1 demo_machine = Inl Invalid_Pointer
   \<and> Idx_Tensor_ctor (Some 1) (Some 0) (c_str ''i'') 1 demo_machine
       = Inr (\<lparr>scale = 1, parent = Some 2, idx_map = ''i'', is_intm = 0\<rparr>,
              \<lparr>heap = [\<lparr>ndim = 1, len = [2], sym = [NS], data = [1, 2]\<rparr>,
                       \<lparr>ndim = 1, len = [2], sym = [NS], data = [10, 20]\<rparr>,
                       \<lparr>ndim = 1, len = [2], sym = [NS], data = [10, 20]\<rparr>],
               calls = []\<rparr>)"
  by (simp add: Idx_Tensor_ctor_def deref_def memcpy_def c_str_def new_Tensor_def
      Tensor_copy_def demo_machine_def)

subsection \<open>The scale of the destination\<close>

text \<open>
  C10. The operators leave the scale of the destination view overwritten: a view
  returned by \<open>=\<close> has scale 0, one returned by \<open>+=\<close> or \<open>-=\<close> has scale 1, whatever the
  scale was before, and nothing else of the view changes. Used afterwards as a source
  operand, the view contributes with the overwritten scale \<open>s\<close>: its execution is the
  call of \<open>sum\<close> with alpha \<open>s\<close>.
\<close>

theorem destination_scale_overwritten:
  "(op_assign X C t st = Inr (C0, st0) \<longrightarrow> C0 = C\<lparr>scale := 0\<rparr>)
   \<and> (op_add_assign X C t st = Inr (C1, st1) \<longrightarrow> C1 = C\<lparr>scale := 1\<rparr>)
   \<and> (op_sub_assign X C t st = Inr (C2, st2) \<longrightarrow> C2 = C\<lparr>scale := 1\<rparr>)
   \<and> (parent C = Some c \<longrightarrow> parent D = Some d \<longrightarrow>
        idx_execute K (C\<lparr>scale := s\<rparr>) D st3
          = Tensor_sum K d s c (idx_map C) (scale D) (idx_map D) st3)"
  by (auto simp: op_assign_def op_add_assign_def op_sub_assign_def idx_execute_def Let_def
      split: sum.splits)

theorem destination_scale_overwritten_witness:
  "(\<exists>st'. op_assign idle_execute demo_dst (Leaf demo_src) demo_machine
            = Inr (\<lparr>scale = 0, parent = Some 1, idx_map = ''i'', is_intm = 0\<rparr>, st'))
   \<and> (\<exists>st'. op_add_assign idle_execute demo_dst (Leaf demo_src) demo_machine
            = Inr (\<lparr>scale = 1, parent = Some 1, idx_map = ''i'', is_intm = 0\<rparr>, st'))
   \<and> (\<exists>st'. op_sub_assign idle_execute demo_dst (Leaf demo_src) demo_machine
            = Inr (\<lparr>scale = 1, parent = Some 1, idx_map = ''i'', is_intm = 0\<rparr>, st'))
   \<and> idx_execute copy_kernel (demo_dst\<lparr>scale := 0\<rparr>) demo_src demo_machine
       = Inr \<lparr>heap = [\<lparr>ndim = 1, len = [2], sym = [NS], data = [3, 6]\<rparr>,
                     \<lparr>ndim = 1, len = [2], sym = [NS], data = [10, 20]\<rparr>],
              calls = [Sum_call 0 0 1 ''i'' 3 ''i'']\<rparr>"
proof -
  obtain C0 st0 where r0: "op_assign idle_execute demo_dst (Leaf demo_src) demo_machine
      = Inr (C0, st0)"
    by (simp add: op_assign_def demo_defs)
  obtain C1 st1 where r1: "op_add_assign idle_execute demo_dst (Leaf demo_src) demo_machine
      = Inr (C1, st1)"
    by (simp add: op_add_assign_def demo_defs)
  obtain C2 st2 where r2: "op_sub_assign idle_execute demo_dst (Leaf demo_src) demo_machine
      = Inr (C2, st2)"
    by (simp add: op_sub_assign_def demo_defs)
  have p: "parent demo_dst = Some 1" "parent demo_src = Some 0"
    by (simp_all add: demo_defs)
  from destination_scale_overwritten [of idle_execute demo_dst "Leaf demo_src"
      demo_machine C0 st0 C1 st1 C2 st2 1 demo_src 0 copy_kernel 0 demo_machine] r0 r1 r2 p
  show ?thesis
    by (simp add: Tensor_sum_def summed_def shape_of_def demo_defs upt_rec)
qed

end
